theory Spec2Isabelle
  imports Main "HOL-Library.Sublist"
begin

section \<open>The webpack runner of taro: build-event reporting\<close>

text \<open>
  The development embeds \<^verbatim>\<open>packages/taro-webpack-runner/src/index.ts\<close>: the lazily
  created spinner, \<^verbatim>\<open>printBuildError\<close>, the \<^verbatim>\<open>done\<close> hook installed by
  \<^verbatim>\<open>createCompiler\<close>, the callback that \<^verbatim>\<open>buildProd\<close> hands to \<^verbatim>\<open>compiler.run\<close>
  and the first-compile banner of \<^verbatim>\<open>buildDev\<close>.

  Strings are the strings of the host language: sequences of UTF-16 code units. What is
  written to the terminal is recorded as a trace of events; the result of \<^verbatim>\<open>chalk\<close> and
  the methods of \<^verbatim>\<open>ora\<close> are library code and stay symbolic.
\<close>

subsection \<open>Strings of the host language\<close>

text \<open>
  A code unit is a number below \<open>2 ^ 16\<close>; no arithmetic is done on code units, they are
  only compared. \<open>units\<close> reads a literal of ASCII (or Latin-1) characters as its code
  units; literals with other characters are written as lists of code units.
\<close>

type_synonym code_unit = nat

type_synonym jstring = "code_unit list"

definition units :: "string \<Rightarrow> jstring" where
  "units s = map of_char s"

definition nl :: jstring where
  "nl = [0x0A]"

definition tab :: jstring where
  "tab = [0x09]"

text \<open>\<^verbatim>\<open>Array.prototype.join\<close> on an array of strings.\<close>

fun join :: "jstring \<Rightarrow> jstring list \<Rightarrow> jstring" where
  "join sep [] = []"
| "join sep [x] = x"
| "join sep (x # y # ys) = x @ sep @ join sep (y # ys)"

text \<open>\<^verbatim>\<open>arr.splice(1)\<close> removes everything from index 1 on, in place.\<close>

definition splice1 :: "'a list \<Rightarrow> 'a list" where
  "splice1 xs = take 1 xs"

text \<open>\<^verbatim>\<open>String.prototype.indexOf\<close>: the first position of the needle, \<open>-1\<close> when absent.\<close>

fun indexOf_from :: "nat \<Rightarrow> jstring \<Rightarrow> jstring \<Rightarrow> int" where
  "indexOf_from i [] needle = (if needle = [] then int i else - 1)"
| "indexOf_from i (x # xs) needle =
     (if prefix needle (x # xs) then int i else indexOf_from (Suc i) xs needle)"

definition indexOf :: "jstring \<Rightarrow> jstring \<Rightarrow> int" where
  "indexOf s needle = indexOf_from 0 s needle"

subsection \<open>The regular expression of the minifier stack\<close>

text \<open>
  The source matches the stack against
  \<^verbatim>\<open>/(.+)\[(.+):(.+),(.+)\]\[.+\]/\<close>. The pattern is a sequence of literal characters and
  greedy \<^verbatim>\<open>.+\<close> repetitions, four of them capturing. The matcher below is the backtracking
  matcher of ECMAScript restricted to these two forms: a repetition first tries to take one
  more code unit and only then the rest of the pattern; the dot takes any code unit but the
  four line terminators LF, CR, U+2028 and U+2029.
\<close>

definition is_line_terminator :: "code_unit \<Rightarrow> bool" where
  "is_line_terminator c = (c = 0x0A \<or> c = 0x0D \<or> c = 0x2028 \<or> c = 0x2029)"

text \<open>The four characters the pattern names.\<close>

abbreviation (input) lbracket :: code_unit where
  "lbracket \<equiv> 0x5B"

abbreviation (input) rbracket :: code_unit where
  "rbracket \<equiv> 0x5D"

abbreviation (input) colon :: code_unit where
  "colon \<equiv> 0x3A"

abbreviation (input) comma :: code_unit where
  "comma \<equiv> 0x2C"

datatype atom = Lit code_unit | DotPlus bool

fun star :: "(jstring \<Rightarrow> jstring \<Rightarrow> 'a option) \<Rightarrow> jstring \<Rightarrow> jstring \<Rightarrow> 'a option" where
  "star k acc [] = k acc []"
| "star k acc (x # xs) =
     (if is_line_terminator x then k acc (x # xs)
      else (case star k (acc @ [x]) xs of
              Some r \<Rightarrow> Some r
            | None \<Rightarrow> k acc (x # xs)))"

definition keep :: "bool \<Rightarrow> jstring \<Rightarrow> (jstring list \<times> jstring) option \<Rightarrow> (jstring list \<times> jstring) option" where
  "keep cap g res =
     (case res of
        None \<Rightarrow> None
      | Some (cs, t) \<Rightarrow> Some (if cap then g # cs else cs, t))"

text \<open>
  \<open>match_here p s\<close> matches the pattern at the start of \<open>s\<close> and returns the captures,
  left to right, with the input left over behind the match.
\<close>

fun match_here :: "atom list \<Rightarrow> jstring \<Rightarrow> (jstring list \<times> jstring) option" where
  "match_here [] s = Some ([], s)"
| "match_here (Lit c # p) [] = None"
| "match_here (Lit c # p) (x # xs) = (if x = c then match_here p xs else None)"
| "match_here (DotPlus cap # p) [] = None"
| "match_here (DotPlus cap # p) (x # xs) =
     (if is_line_terminator x then None
      else star (\<lambda>g rest. keep cap g (match_here p rest)) [x] xs)"

definition minify_pattern :: "atom list" where
  "minify_pattern =
     [DotPlus True, Lit lbracket, DotPlus True, Lit colon, DotPlus True,
      Lit comma, DotPlus True, Lit rbracket, Lit lbracket, DotPlus False,
      Lit rbracket]"

text \<open>
  \<^verbatim>\<open>RegExp.prototype.exec\<close> without flags: the leftmost start position that matches wins.
  The result array holds the whole match at index 0 and the captures behind it.
\<close>

fun regex_exec :: "atom list \<Rightarrow> jstring \<Rightarrow> jstring list option" where
  "regex_exec p [] =
     (case match_here p [] of
        Some (cs, t) \<Rightarrow> Some ([] # cs)
      | None \<Rightarrow> None)"
| "regex_exec p (x # xs) =
     (case match_here p (x # xs) of
        Some (cs, t) \<Rightarrow> Some (take (length (x # xs) - length t) (x # xs) # cs)
      | None \<Rightarrow> regex_exec p xs)"

subsection \<open>Values, exceptions and the terminal\<close>

text \<open>
  The argument of \<^verbatim>\<open>printBuildError\<close> is typed \<^verbatim>\<open>Error\<close>, which the compiler checks by
  structure only. At run time it is \<^verbatim>\<open>null\<close>, \<^verbatim>\<open>undefined\<close>, a primitive (which has
  neither property) or an object whose \<^verbatim>\<open>message\<close> and \<^verbatim>\<open>stack\<close> are strings or missing.

  What \<^verbatim>\<open>err + '\n'\<close> does with a primitive or an object is fixed by the value itself:
  the conversion yields a string (an \<^verbatim>\<open>Error\<close> instance through
  \<^verbatim>\<open>Error.prototype.toString\<close>, a plain object \<^verbatim>\<open>[object Object]\<close>, a primitive its
  text) or throws a \<^verbatim>\<open>TypeError\<close> (an object without prototype, a Symbol). The first
  argument of \<open>Primitive\<close> tells whether the value is truthy; objects are.
\<close>

datatype js_exn = TypeError jstring | ThrownError jstring

datatype conversion = Converts jstring | Throws js_exn

datatype js_error =
    Null
  | Undefined
  | Primitive bool conversion
  | Object (err_message: "jstring option") (err_stack: "jstring option") conversion

datatype js_val = VFalse | VUndefined | VString jstring

definition not_nullish :: "js_error \<Rightarrow> bool" where
  "not_nullish err = (err \<noteq> Null \<and> err \<noteq> Undefined)"

fun truthy_err :: "js_error \<Rightarrow> bool" where
  "truthy_err Null = False"
| "truthy_err Undefined = False"
| "truthy_err (Primitive t c) = t"
| "truthy_err (Object m s c) = True"

text \<open>Reading a property of \<^verbatim>\<open>null\<close> or \<^verbatim>\<open>undefined\<close> throws a \<^verbatim>\<open>TypeError\<close>.\<close>

fun of_field :: "jstring option \<Rightarrow> js_val" where
  "of_field None = VUndefined"
| "of_field (Some s) = VString s"

fun get_message :: "js_error \<Rightarrow> js_exn + js_val" where
  "get_message Null = Inl (TypeError (units ''Cannot read property message of null''))"
| "get_message Undefined = Inl (TypeError (units ''Cannot read property message of undefined''))"
| "get_message (Primitive t c) = Inr VUndefined"
| "get_message (Object m s c) = Inr (of_field m)"

fun get_stack :: "js_error \<Rightarrow> js_exn + js_val" where
  "get_stack Null = Inl (TypeError (units ''Cannot read property stack of null''))"
| "get_stack Undefined = Inl (TypeError (units ''Cannot read property stack of undefined''))"
| "get_stack (Primitive t c) = Inr VUndefined"
| "get_stack (Object m s c) = Inr (of_field s)"

fun truthy :: "js_val \<Rightarrow> bool" where
  "truthy VFalse = False"
| "truthy VUndefined = False"
| "truthy (VString s) = (s \<noteq> [])"

fun is_string :: "js_val \<Rightarrow> bool" where
  "is_string (VString s) = True"
| "is_string v = False"

fun to_str :: "js_val \<Rightarrow> jstring" where
  "to_str VFalse = units ''false''"
| "to_str VUndefined = units ''undefined''"
| "to_str (VString s) = s"

text \<open>The string that \<^verbatim>\<open>err + '\n'\<close> starts with, or the exception of the conversion.\<close>

fun convert :: "conversion \<Rightarrow> js_exn + jstring" where
  "convert (Converts s) = Inr s"
| "convert (Throws e) = Inl e"

fun err_to_string :: "js_error \<Rightarrow> js_exn + jstring" where
  "err_to_string Null = Inr (units ''null'')"
| "err_to_string Undefined = Inr (units ''undefined'')"
| "err_to_string (Primitive t c) = convert c"
| "err_to_string (Object m s c) = convert c"

text \<open>\<^verbatim>\<open>Error.prototype.toString\<close> for an object with the given name and message.\<close>

definition error_toString :: "jstring \<Rightarrow> jstring \<Rightarrow> jstring" where
  "error_toString name msg =
     (if name = [] then msg else if msg = [] then name else name @ units '': '' @ msg)"

datatype style = Green | Red | Yellow | Cyan | Gray | Underline

datatype rtext = Str jstring | Chalk style rtext | Cat rtext rtext

datatype arg = Txt rtext | ErrVal js_error

record persist_options =
  symbol :: jstring
  ptext :: rtext

datatype event =
    ConsoleLog "arg list"
  | StdoutWrite jstring
  | OraRender nat
  | OraStart nat
  | OraClear nat
  | OraStopAndPersist nat persist_options
  | Opn jstring

subsection \<open>printBuildError\<close>

definition minify_marker :: jstring where
  "minify_marker = units ''from UglifyJs''"

text \<open>
  The location shown for a minifier failure, the template literal
  \<^verbatim>\<open>`\t${problemPath}:${line}${column !== '0' ? ':' + column : ''}`\<close>.
\<close>

definition location_text :: "jstring \<Rightarrow> jstring \<Rightarrow> jstring \<Rightarrow> jstring" where
  "location_text problemPath line column =
     tab @ problemPath @ units '':'' @ line
       @ (if column \<noteq> units ''0'' then units '':'' @ column else [])"

text \<open>
  The body of the \<^verbatim>\<open>try\<close> block. It either throws (\<open>Inl\<close>) or returns what it printed.
\<close>

definition try_minify_report :: "js_val \<Rightarrow> js_exn + event list" where
  "try_minify_report stack =
     (case regex_exec minify_pattern (to_str stack) of
        None \<Rightarrow> Inl (ThrownError (units ''Using errors for control flow is bad.''))
      | Some matched \<Rightarrow>
          (let problemPath = matched ! 2;
               line = matched ! 3;
               column = matched ! 4
           in Inr [ConsoleLog
                     [Txt (Str (units ''Failed to minify the code from this file: '' @ nl @ nl)),
                      Txt (Chalk Yellow (Str (location_text problemPath line column))),
                      Txt (Str nl)]]))"

text \<open>
  In the \<^verbatim>\<open>else\<close> branch the argument \<^verbatim>\<open>(message || err) + '\n'\<close> is evaluated outside
  the \<^verbatim>\<open>try\<close>, before anything is printed: an exception of the conversion leaves the
  function.
\<close>

definition printBuildError :: "js_error \<Rightarrow> js_exn + event list" where
  "printBuildError err =
     (case (if not_nullish err then get_message err else Inr VFalse) of
        Inl e \<Rightarrow> Inl e
      | Inr message \<Rightarrow>
     (case (if not_nullish err then get_stack err else Inr VFalse) of
        Inl e \<Rightarrow> Inl e
      | Inr stack \<Rightarrow>
          (if truthy stack \<and> is_string message
                \<and> indexOf (to_str message) minify_marker \<noteq> - 1
           then (case try_minify_report stack of
                   Inr printed \<Rightarrow> Inr (printed @ [ConsoleLog []])
                 | Inl ignored \<Rightarrow>
                     Inr ([ConsoleLog [Txt (Str (units ''Failed to minify the bundle.'')),
                                       ErrVal err]]
                          @ [ConsoleLog []]))
           else (case (if truthy message then Inr (to_str message) else err_to_string err) of
                   Inl e \<Rightarrow> Inl e
                 | Inr s \<Rightarrow> Inr ([ConsoleLog [Txt (Str (s @ nl))]] @ [ConsoleLog []])))))"

subsection \<open>The module state and the spinner\<close>

text \<open>
  \<open>isFirst\<close> is the module-level latch. \<open>spinner\<close> is the variable closed over by
  \<^verbatim>\<open>getServeSpinner\<close>; it holds a reference into \<open>instances\<close>, the \<^verbatim>\<open>ora\<close> objects created
  so far. \<open>out\<close> is the trace of what reached the terminal.
\<close>

record ora =
  spinner_text :: jstring

record state =
  isFirst :: bool
  spinner :: "nat option"
  instances :: "ora list"
  out :: "event list"

definition initial :: state where
  "initial = \<lparr>isFirst = True, spinner = None, instances = [], out = []\<rparr>"

definition emit :: "event \<Rightarrow> state \<Rightarrow> state" where
  "emit e st = st\<lparr>out := out st @ [e]\<rparr>"

definition console_log :: "arg list \<Rightarrow> state \<Rightarrow> state" where
  "console_log args st = emit (ConsoleLog args) st"

definition getServeSpinner :: "state \<Rightarrow> nat \<times> state" where
  "getServeSpinner st =
     (case spinner st of
        None \<Rightarrow>
          (let r = length (instances st)
           in (r, st\<lparr>spinner := Some r,
                     instances := instances st
                        @ [\<lparr>spinner_text =
                              units ''Starting development server, please wait~''\<rparr>]\<rparr>))
      | Some r \<Rightarrow> (r, st))"

definition spinner_set_text :: "jstring \<Rightarrow> state \<Rightarrow> state" where
  "spinner_set_text s st =
     (let (r, st1) = getServeSpinner st
      in st1\<lparr>instances := (instances st1)[r := \<lparr>spinner_text = s\<rparr>]\<rparr>)"

definition spinner_render :: "state \<Rightarrow> state" where
  "spinner_render st = (let (r, st1) = getServeSpinner st in emit (OraRender r) st1)"

definition spinner_start :: "state \<Rightarrow> state" where
  "spinner_start st = (let (r, st1) = getServeSpinner st in emit (OraStart r) st1)"

definition spinner_clear :: "state \<Rightarrow> state" where
  "spinner_clear st = (let (r, st1) = getServeSpinner st in emit (OraClear r) st1)"

definition stopAndPersist :: "persist_options \<Rightarrow> state \<Rightarrow> state" where
  "stopAndPersist opts st =
     (let (r, st1) = getServeSpinner st in emit (OraStopAndPersist r opts) st1)"

text \<open>
  The three status lines. The symbols are the code units of the source's literals: U+2705,
  U+1F645 (a surrogate pair) and U+26A0 U+FE0F, each followed by its spaces.
\<close>

definition success_line :: persist_options where
  "success_line =
     \<lparr>symbol = [0x2705, 0x20],
      ptext = Chalk Green (Str (units ''Compile successfully!'' @ nl))\<rparr>"

definition failure_line :: persist_options where
  "failure_line =
     \<lparr>symbol = [0xD83D, 0xDE45, 0x20, 0x20],
      ptext = Chalk Red (Str (units ''Compile failed!'' @ nl))\<rparr>"

definition warning_line :: persist_options where
  "warning_line =
     \<lparr>symbol = [0x26A0, 0xFE0F, 0x20, 0x20],
      ptext = Chalk Yellow (Str (units ''Compile completes with warnings.'' @ nl))\<rparr>"

subsection \<open>The compile result\<close>

text \<open>
  \<^verbatim>\<open>formatWebpackMessage\<close> is imported from a module that is not part of the file; it is a
  parameter \<open>fmt\<close> of the hooks. \<^verbatim>\<open>stats\<close> is the engine's object with its two methods.
\<close>

record messages =
  errors :: "jstring list"
  warnings :: "jstring list"

datatype json_arg = ArgTrue | ArgEmptyObject

record to_string_options =
  colors :: bool
  modules :: bool
  children :: bool
  chunks :: bool
  chunkModules :: bool

record 'j stats =
  toJson :: "json_arg \<Rightarrow> 'j"
  toString :: "to_string_options \<Rightarrow> jstring"

subsection \<open>createCompiler: the hooks of watch mode\<close>

definition taroInvalid :: "state \<Rightarrow> state" where
  "taroInvalid st = spinner_render (spinner_set_text (units ''Compiling...'') st)"

definition taroDone :: "('j \<Rightarrow> messages) \<Rightarrow> 'j stats \<Rightarrow> state \<Rightarrow> state" where
  "taroDone fmt st_obj st =
     (let msgs = fmt (toJson st_obj ArgTrue);
          errs = errors msgs;
          warns = warnings msgs;
          isSuccess = (length errs = 0 \<and> length warns = 0);
          st1 = (if isSuccess then stopAndPersist success_line st else st);
          st2 = (if length errs \<noteq> 0
                 then (let errs1 = splice1 errs
                       in console_log [Txt (Str (join (nl @ nl) errs1 @ nl))]
                            (stopAndPersist failure_line st1))
                 else st1);
          st3 = (if length warns \<noteq> 0
                 then (let warns1 = splice1 warns
                       in console_log [Txt (Str (join (nl @ nl) warns1 @ nl))]
                            (stopAndPersist warning_line st2))
                 else st2)
      in st3)"

subsection \<open>buildProd: one-shot mode\<close>

text \<open>
  \<^verbatim>\<open>new Error(text)\<close>: an \<^verbatim>\<open>Error\<close> instance named \<^verbatim>\<open>Error\<close>. Its stack is captured by
  the engine; \<open>trace\<close> stands for that capture.
\<close>

definition new_Error :: "(jstring \<Rightarrow> jstring option) \<Rightarrow> jstring \<Rightarrow> js_error" where
  "new_Error trace msg =
     Object (Some msg) (trace msg) (Converts (error_toString (units ''Error'') msg))"

definition summary_options :: to_string_options where
  "summary_options =
     \<lparr>colors = True, modules = False, children = False, chunks = False, chunkModules = False\<rparr>"

definition buildProd_start :: "state \<Rightarrow> state" where
  "buildProd_start st = spinner_start (spinner_set_text (units ''Compiling...'') st)"

text \<open>
  Printing through \<^verbatim>\<open>printBuildError\<close>. An exception it throws leaves the callback; it is
  returned with the state reached.
\<close>

definition print_error :: "js_error \<Rightarrow> state \<Rightarrow> (js_exn \<times> state) + state" where
  "print_error err st =
     (case printBuildError err of
        Inl e \<Rightarrow> Inl (e, st)
      | Inr printed \<Rightarrow> Inr (st\<lparr>out := out st @ printed\<rparr>))"

definition guidance_keywords :: "arg list" where
  "guidance_keywords =
     [Txt (Cat (Cat (Str (nl @ units ''Search for the ''))
                    (Chalk Underline (Chalk Yellow (Str (units ''keywords'')))))
               (Str (units '' to learn more about each warning.'')))]"

definition guidance_ignore :: "arg list" where
  "guidance_ignore =
     [Txt (Cat (Cat (Str (units ''To ignore, add ''))
                    (Chalk Cyan (Str (units ''// eslint-disable-next-line''))))
               (Str (units '' to the line before.'' @ nl)))]"

definition run_callback ::
  "('j \<Rightarrow> messages) \<Rightarrow> (jstring \<Rightarrow> jstring option) \<Rightarrow> js_error \<Rightarrow> 'j stats \<Rightarrow> state
     \<Rightarrow> (js_exn \<times> state) + state" where
  "run_callback fmt trace err st_obj st =
     (if truthy_err err then print_error err st
      else
        (let msgs = fmt (toJson st_obj ArgEmptyObject);
             errs = errors msgs;
             warns = warnings msgs;
             isSuccess = (length errs = 0 \<and> length warns = 0)
         in if isSuccess
            then Inr (emit (StdoutWrite (toString st_obj summary_options @ nl))
                        (stopAndPersist success_line st))
            else if length errs \<noteq> 0
            then (let errs1 = splice1 errs
                  in print_error (new_Error trace (join (nl @ nl) errs1))
                       (stopAndPersist failure_line st))
            else if length warns \<noteq> 0
            then Inr (console_log guidance_ignore
                       (console_log guidance_keywords
                          (console_log [Txt (Str (join (nl @ nl) warns))]
                             (stopAndPersist warning_line st))))
            else Inr st))"

subsection \<open>buildDev: watch mode\<close>

text \<open>
  \<^verbatim>\<open>prepareUrls\<close> is imported; the two addresses it returns that are printed are fields of
  \<open>urls\<close>.
\<close>

record urls =
  lanUrlForTerminal :: jstring
  localUrlForBrowser :: jstring

text \<open>The information sign U+2139 U+FE0F and the seven characters of the localized line.\<close>

definition info_sign :: jstring where
  "info_sign = [0x2139, 0xFE0F]"

definition watching_text :: jstring where
  "watching_text = [0x76D1, 0x542C, 0x6587, 0x4EF6, 0x4FEE, 0x6539, 0x4E2D]"

definition listening_line :: "jstring \<Rightarrow> event" where
  "listening_line url =
     ConsoleLog [Txt (Chalk Cyan (Str (info_sign @ units ''  Listening at '' @ url)))]"

definition watching_line :: event where
  "watching_line = ConsoleLog [Txt (Chalk Gray (Str (nl @ watching_text @ units ''...'' @ nl)))]"

definition taroDoneFirst :: "urls \<Rightarrow> state \<Rightarrow> state" where
  "taroDoneFirst u st =
     (if isFirst st
      then emit watching_line
             (emit (listening_line (localUrlForBrowser u))
                (emit (listening_line (lanUrlForTerminal u))
                   (console_log []
                      (spinner_clear (st\<lparr>isFirst := False\<rparr>)))))
      else st)"

definition buildDev_start :: "state \<Rightarrow> state" where
  "buildDev_start st =
     spinner_start (spinner_set_text (units ''Compiling...'') (console_log [] st))"

definition listen_callback :: "urls \<Rightarrow> js_error \<Rightarrow> state \<Rightarrow> state" where
  "listen_callback u err st =
     (if truthy_err err then console_log [ErrVal err] st
      else emit (Opn (localUrlForBrowser u)) st)"

text \<open>
  What the engine delivers to the compiler made by \<^verbatim>\<open>createCompiler\<close> in \<^verbatim>\<open>buildDev\<close>:
  an invalidation, or the end of a compile pass. The \<^verbatim>\<open>done\<close> hook runs its taps in the
  order of registration: first \<^verbatim>\<open>taroDone\<close>, then \<^verbatim>\<open>taroDoneFirst\<close>.
\<close>

datatype 'j compile_event = Invalid | Done "'j stats"

fun watch_step :: "('j \<Rightarrow> messages) \<Rightarrow> urls \<Rightarrow> 'j compile_event \<Rightarrow> state \<Rightarrow> state" where
  "watch_step fmt u Invalid st = taroInvalid st"
| "watch_step fmt u (Done st_obj) st = taroDoneFirst u (taroDone fmt st_obj st)"


subsection \<open>The process: what can call into the module\<close>

text \<open>
  The default export starts one of the two modes; afterwards the engine and the server call
  back. \<open>CallGetServeSpinner\<close> is a direct call of the accessor. An exception that leaves a
  callback ends the run; \<open>final\<close> is the state the process is in at the end of the run
  either way.
\<close>

datatype 'j op =
    CallGetServeSpinner
  | StartWatch
  | StartOneShot
  | Compile "'j compile_event"
  | RunDone js_error "'j stats"
  | Listened js_error

fun step ::
  "('j \<Rightarrow> messages) \<Rightarrow> (jstring \<Rightarrow> jstring option) \<Rightarrow> urls \<Rightarrow> 'j op \<Rightarrow> state
     \<Rightarrow> (js_exn \<times> state) + state" where
  "step fmt trace u CallGetServeSpinner st = Inr (snd (getServeSpinner st))"
| "step fmt trace u StartWatch st = Inr (buildDev_start st)"
| "step fmt trace u StartOneShot st = Inr (buildProd_start st)"
| "step fmt trace u (Compile e) st = Inr (watch_step fmt u e st)"
| "step fmt trace u (RunDone err st_obj) st = run_callback fmt trace err st_obj st"
| "step fmt trace u (Listened err) st = Inr (listen_callback u err st)"

fun run ::
  "('j \<Rightarrow> messages) \<Rightarrow> (jstring \<Rightarrow> jstring option) \<Rightarrow> urls \<Rightarrow> 'j op list \<Rightarrow> state
     \<Rightarrow> (js_exn \<times> state) + state" where
  "run fmt trace u [] st = Inr st"
| "run fmt trace u (x # xs) st =
     (case step fmt trace u x st of
        Inl thrown \<Rightarrow> Inl thrown
      | Inr st1 \<Rightarrow> run fmt trace u xs st1)"

fun final :: "(js_exn \<times> state) + state \<Rightarrow> state" where
  "final (Inl (e, st)) = st"
| "final (Inr st) = st"

subsection \<open>Vocabulary of the statements\<close>

text \<open>The \<^verbatim>\<open>ora\<close> instance an event was sent to.\<close>

fun ora_ref :: "event \<Rightarrow> nat option" where
  "ora_ref (OraRender r) = Some r"
| "ora_ref (OraStart r) = Some r"
| "ora_ref (OraClear r) = Some r"
| "ora_ref (OraStopAndPersist r opts) = Some r"
| "ora_ref e = None"

fun is_persist :: "event \<Rightarrow> bool" where
  "is_persist (OraStopAndPersist r opts) = True"
| "is_persist e = False"

text \<open>
  The singleton invariant: no instance has been made and the variable is empty, or exactly
  one has been made and the variable refers to it; every event sent to an instance went to
  that one.
\<close>

definition one_spinner :: "state \<Rightarrow> bool" where
  "one_spinner st =
     (((spinner st = None \<and> instances st = [])
        \<or> (spinner st = Some 0 \<and> length (instances st) = 1))
      \<and> (\<forall>e\<in>set (out st). ora_ref e = None \<or> ora_ref e = Some 0))"





text \<open>
  \<open>converts\<close>: the conversion of the value to a string does not throw. \<open>has_message\<close>:
  the value has a non-empty \<^verbatim>\<open>message\<close>, so that \<^verbatim>\<open>message || err\<close> is the message.
  \<open>op_converts\<close>: the call does not hand the run callback a value whose conversion throws.
\<close>

fun converts :: "js_error \<Rightarrow> bool" where
  "converts (Primitive t (Throws e)) = False"
| "converts (Object m s (Throws e)) = False"
| "converts err = True"

fun has_message :: "js_error \<Rightarrow> bool" where
  "has_message (Object (Some m) s c) = (m \<noteq> [])"
| "has_message err = False"

fun op_converts :: "'j op \<Rightarrow> bool" where
  "op_converts (RunDone err st_obj) = converts err"
| "op_converts x = True"



section \<open>The greedy matcher\<close>






lemma keep_None_iff: "keep cap g res = None \<longleftrightarrow> res = None"
  by (auto simp: keep_def split: option.splits)











subsection \<open>Facts about the spinner and the trace\<close>

lemma getServeSpinner_again [simp]:
  "getServeSpinner (snd (getServeSpinner st)) = (fst (getServeSpinner st), snd (getServeSpinner st))"
  by (simp add: getServeSpinner_def Let_def split: option.splits)

lemma out_getServeSpinner [simp]: "out (snd (getServeSpinner st)) = out st"
  by (simp add: getServeSpinner_def Let_def split: option.splits)

lemma isFirst_getServeSpinner [simp]: "isFirst (snd (getServeSpinner st)) = isFirst st"
  by (simp add: getServeSpinner_def Let_def split: option.splits)

lemma out_emit [simp]: "out (emit e st) = out st @ [e]"
  by (simp add: emit_def)

lemma isFirst_emit [simp]: "isFirst (emit e st) = isFirst st"
  by (simp add: emit_def)

lemma ref_emit [simp]: "fst (getServeSpinner (emit e st)) = fst (getServeSpinner st)"
  by (simp add: getServeSpinner_def emit_def Let_def split: option.splits)

lemma out_console_log [simp]: "out (console_log args st) = out st @ [ConsoleLog args]"
  by (simp add: console_log_def)

lemma isFirst_console_log [simp]: "isFirst (console_log args st) = isFirst st"
  by (simp add: console_log_def)

lemma ref_console_log [simp]:
  "fst (getServeSpinner (console_log args st)) = fst (getServeSpinner st)"
  by (simp add: console_log_def)

lemma out_stopAndPersist [simp]:
  "out (stopAndPersist opts st) = out st @ [OraStopAndPersist (fst (getServeSpinner st)) opts]"
  by (simp add: stopAndPersist_def split_beta)

lemma isFirst_stopAndPersist [simp]: "isFirst (stopAndPersist opts st) = isFirst st"
  by (simp add: stopAndPersist_def split_beta)

lemma ref_stopAndPersist [simp]:
  "fst (getServeSpinner (stopAndPersist opts st)) = fst (getServeSpinner st)"
  by (simp add: stopAndPersist_def split_beta)

lemma out_spinner_clear [simp]:
  "out (spinner_clear st) = out st @ [OraClear (fst (getServeSpinner st))]"
  by (simp add: spinner_clear_def split_beta)

lemma isFirst_spinner_clear [simp]: "isFirst (spinner_clear st) = isFirst st"
  by (simp add: spinner_clear_def split_beta)

lemma out_spinner_render [simp]:
  "out (spinner_render st) = out st @ [OraRender (fst (getServeSpinner st))]"
  by (simp add: spinner_render_def split_beta)

lemma isFirst_spinner_render [simp]: "isFirst (spinner_render st) = isFirst st"
  by (simp add: spinner_render_def split_beta)

lemma out_spinner_start [simp]:
  "out (spinner_start st) = out st @ [OraStart (fst (getServeSpinner st))]"
  by (simp add: spinner_start_def split_beta)

lemma isFirst_spinner_start [simp]: "isFirst (spinner_start st) = isFirst st"
  by (simp add: spinner_start_def split_beta)

lemma out_spinner_set_text [simp]: "out (spinner_set_text s st) = out st"
  by (simp add: spinner_set_text_def split_beta)

lemma isFirst_spinner_set_text [simp]: "isFirst (spinner_set_text s st) = isFirst st"
  by (simp add: spinner_set_text_def split_beta)

lemma ref_spinner_set_text [simp]:
  "fst (getServeSpinner (spinner_set_text s st)) = fst (getServeSpinner st)"
  by (simp add: spinner_set_text_def getServeSpinner_def Let_def split: option.splits)

subsection \<open>Facts about printBuildError\<close>

lemma marker_not_in_empty: "indexOf [] minify_marker = - 1"
  by (simp add: indexOf_def minify_marker_def units_def)

lemma converts_iff: "converts err \<longleftrightarrow> (\<exists>s. err_to_string err = Inr s)"
  by (induction err rule: converts.induct) simp_all

lemma printBuildError_Null:
  "printBuildError Null = Inr [ConsoleLog [Txt (Str (units ''null'' @ nl))], ConsoleLog []]"
  by (simp add: printBuildError_def not_nullish_def)

lemma printBuildError_Undefined:
  "printBuildError Undefined
     = Inr [ConsoleLog [Txt (Str (units ''undefined'' @ nl))], ConsoleLog []]"
  by (simp add: printBuildError_def not_nullish_def)

lemma printBuildError_Primitive:
  "printBuildError (Primitive t c)
     = (case c of
          Converts x \<Rightarrow> Inr [ConsoleLog [Txt (Str (x @ nl))], ConsoleLog []]
        | Throws e \<Rightarrow> Inl e)"
  by (cases c) (simp_all add: printBuildError_def not_nullish_def)

lemma printBuildError_no_message:
  "m = None \<or> m = Some [] \<Longrightarrow>
   printBuildError (Object m s c)
     = (case c of
          Converts x \<Rightarrow> Inr [ConsoleLog [Txt (Str (x @ nl))], ConsoleLog []]
        | Throws e \<Rightarrow> Inl e)"
  by (cases c) (auto simp: printBuildError_def not_nullish_def marker_not_in_empty)

lemma printBuildError_fallback:
  "m \<noteq> [] \<Longrightarrow> \<not> (truthy (of_field s) \<and> indexOf m minify_marker \<noteq> - 1) \<Longrightarrow>
   printBuildError (Object (Some m) s c)
     = Inr [ConsoleLog [Txt (Str (m @ nl))], ConsoleLog []]"
  by (auto simp: printBuildError_def not_nullish_def)

lemma printBuildError_minify:
  assumes "stack \<noteq> []" "indexOf m minify_marker \<noteq> - 1"
  shows "printBuildError (Object (Some m) (Some stack) c)
     = (case regex_exec minify_pattern stack of
          Some matched \<Rightarrow>
            Inr [ConsoleLog
                   [Txt (Str (units ''Failed to minify the code from this file: '' @ nl @ nl)),
                    Txt (Chalk Yellow
                           (Str (tab @ matched ! 2 @ units '':'' @ matched ! 3
                                 @ (if matched ! 4 \<noteq> units ''0''
                                    then units '':'' @ matched ! 4 else [])))),
                    Txt (Str nl)],
                 ConsoleLog []]
        | None \<Rightarrow>
            Inr [ConsoleLog [Txt (Str (units ''Failed to minify the bundle.'')),
                             ErrVal (Object (Some m) (Some stack) c)],
                 ConsoleLog []])"
  using assms
  by (simp add: printBuildError_def not_nullish_def try_minify_report_def location_text_def
        Let_def split: option.splits)

lemma printBuildError_throws_iff:
  "printBuildError err = Inl e \<longleftrightarrow> \<not> has_message err \<and> err_to_string err = Inl e"
proof (cases err)
  case Null
  then show ?thesis by (simp add: printBuildError_Null)
next
  case Undefined
  then show ?thesis by (simp add: printBuildError_Undefined)
next
  case (Primitive t c)
  then show ?thesis by (cases c) (simp_all add: printBuildError_Primitive)
next
  case (Object m s c)
  show ?thesis
  proof (cases "m = None \<or> m = Some []")
    case True
    then show ?thesis using Object
      by (cases c) (auto simp: printBuildError_no_message)
  next
    case False
    then obtain x where x: "m = Some x" "x \<noteq> []" by (cases m) auto
    show ?thesis
    proof (cases "truthy (of_field s) \<and> indexOf x minify_marker \<noteq> - 1")
      case True
      then obtain stack where "s = Some stack" "stack \<noteq> []"
        by (cases s) auto
      then show ?thesis using Object x True
        by (simp add: printBuildError_minify split: option.splits)
    next
      case False
      then show ?thesis using Object x by (simp add: printBuildError_fallback)
    qed
  qed
qed

lemma printBuildError_returns:
  "has_message err \<or> converts err \<Longrightarrow> \<exists>printed. printBuildError err = Inr printed"
proof -
  assume a: "has_message err \<or> converts err"
  have "\<And>e. printBuildError err \<noteq> Inl e"
    using a by (auto simp: printBuildError_throws_iff converts_iff)
  then show ?thesis by (cases "printBuildError err") auto
qed

lemma printBuildError_logs_only:
  "printBuildError err = Inr printed \<Longrightarrow> e \<in> set printed \<Longrightarrow>
     \<not> is_persist e \<and> ora_ref e = None"
  by (cases err)
     (auto simp: printBuildError_def not_nullish_def try_minify_report_def Let_def
           split: sum.splits if_splits option.splits)

text \<open>Unfolding everything, for runs from a concrete state.\<close>

lemmas concrete =
  initial_def getServeSpinner_def emit_def console_log_def spinner_set_text_def
  spinner_render_def spinner_start_def spinner_clear_def stopAndPersist_def
  buildProd_start_def buildDev_start_def taroInvalid_def taroDone_def taroDoneFirst_def
  run_callback_def print_error_def new_Error_def listen_callback_def splice1_def Let_def

subsection \<open>The matcher finds exactly the stacks of the pattern\<close>










subsection \<open>The latch\<close>

lemma isFirst_taroDone [simp]: "isFirst (taroDone fmt st_obj st) = isFirst st"
  by (simp add: taroDone_def Let_def)

lemma isFirst_taroInvalid [simp]: "isFirst (taroInvalid st) = isFirst st"
  by (simp add: taroInvalid_def)




lemma ref_isFirst_update [simp]:
  "fst (getServeSpinner (st\<lparr>isFirst := b\<rparr>)) = fst (getServeSpinner st)"
  by (simp add: getServeSpinner_def Let_def split: option.splits)






subsection \<open>The singleton invariant\<close>

lemma one_spinner_initial: "one_spinner initial"
  by (simp add: one_spinner_def initial_def)

lemma one_spinner_get:
  "one_spinner st \<Longrightarrow> fst (getServeSpinner st) = 0 \<and> one_spinner (snd (getServeSpinner st))"
  by (auto simp: one_spinner_def getServeSpinner_def Let_def split: option.splits)

lemma one_spinner_get_length:
  "one_spinner st \<Longrightarrow> length (instances (snd (getServeSpinner st))) = 1"
  by (auto simp: one_spinner_def getServeSpinner_def Let_def split: option.splits)

lemma one_spinner_emit:
  "one_spinner st \<Longrightarrow> ora_ref e = None \<or> ora_ref e = Some 0 \<Longrightarrow> one_spinner (emit e st)"
  by (auto simp: one_spinner_def emit_def)

lemma one_spinner_console_log: "one_spinner st \<Longrightarrow> one_spinner (console_log args st)"
  by (simp add: console_log_def one_spinner_emit)

lemma one_spinner_set_text: "one_spinner st \<Longrightarrow> one_spinner (spinner_set_text s st)"
  by (auto simp: one_spinner_def spinner_set_text_def getServeSpinner_def Let_def
           split: option.splits)

lemma one_spinner_start: "one_spinner st \<Longrightarrow> one_spinner (spinner_start st)"
  using one_spinner_get [of st] by (simp add: spinner_start_def split_beta one_spinner_emit)

lemma one_spinner_render: "one_spinner st \<Longrightarrow> one_spinner (spinner_render st)"
  using one_spinner_get [of st] by (simp add: spinner_render_def split_beta one_spinner_emit)

lemma one_spinner_clear: "one_spinner st \<Longrightarrow> one_spinner (spinner_clear st)"
  using one_spinner_get [of st] by (simp add: spinner_clear_def split_beta one_spinner_emit)

lemma one_spinner_persist: "one_spinner st \<Longrightarrow> one_spinner (stopAndPersist opts st)"
  using one_spinner_get [of st] by (simp add: stopAndPersist_def split_beta one_spinner_emit)

lemma one_spinner_latch: "one_spinner (st\<lparr>isFirst := b\<rparr>) = one_spinner st"
  by (simp add: one_spinner_def)

lemma one_spinner_printed:
  "one_spinner st \<Longrightarrow> \<forall>e\<in>set printed. ora_ref e = None \<Longrightarrow>
     one_spinner (st\<lparr>out := out st @ printed\<rparr>)"
  by (auto simp: one_spinner_def)

lemma one_spinner_taroInvalid: "one_spinner st \<Longrightarrow> one_spinner (taroInvalid st)"
  by (simp add: taroInvalid_def one_spinner_render one_spinner_set_text)

lemma one_spinner_taroDone: "one_spinner st \<Longrightarrow> one_spinner (taroDone fmt st_obj st)"
  by (simp add: taroDone_def Let_def one_spinner_persist one_spinner_console_log)

lemma one_spinner_taroDoneFirst: "one_spinner st \<Longrightarrow> one_spinner (taroDoneFirst u st)"
  by (simp add: taroDoneFirst_def listening_line_def watching_line_def one_spinner_emit
        one_spinner_console_log one_spinner_clear one_spinner_latch)

lemma one_spinner_print_error:
  "one_spinner st \<Longrightarrow> one_spinner (final (print_error err st))"
proof (cases "printBuildError err")
  case (Inl e)
  assume "one_spinner st"
  then show ?thesis using Inl by (simp add: print_error_def)
next
  case (Inr printed)
  assume i: "one_spinner st"
  have "\<forall>e\<in>set printed. ora_ref e = None"
    using printBuildError_logs_only [OF Inr] by blast
  with i Inr show ?thesis by (simp add: print_error_def one_spinner_printed)
qed

lemma one_spinner_run_callback:
  "one_spinner st \<Longrightarrow> one_spinner (final (run_callback fmt trace err st_obj st))"
  by (simp add: run_callback_def Let_def one_spinner_print_error one_spinner_persist
        one_spinner_emit one_spinner_console_log)

lemma one_spinner_step:
  "one_spinner st \<Longrightarrow> one_spinner (final (step fmt trace u x st))"
proof (cases x)
  case CallGetServeSpinner
  assume "one_spinner st"
  then show ?thesis using CallGetServeSpinner one_spinner_get by simp
next
  case StartWatch
  assume "one_spinner st"
  then show ?thesis using StartWatch
    by (simp add: buildDev_start_def one_spinner_start one_spinner_set_text one_spinner_console_log)
next
  case StartOneShot
  assume "one_spinner st"
  then show ?thesis using StartOneShot
    by (simp add: buildProd_start_def one_spinner_start one_spinner_set_text)
next
  case (Compile e)
  assume "one_spinner st"
  then show ?thesis using Compile
    by (cases e) (simp_all add: one_spinner_taroInvalid one_spinner_taroDone one_spinner_taroDoneFirst)
next
  case (RunDone err st_obj)
  assume "one_spinner st"
  then show ?thesis using RunDone one_spinner_run_callback by simp
next
  case (Listened err)
  assume "one_spinner st"
  then show ?thesis using Listened
    by (simp add: listen_callback_def one_spinner_console_log one_spinner_emit)
qed

lemma one_spinner_run:
  "one_spinner st \<Longrightarrow> one_spinner (final (run fmt trace u xs st))"
proof (induction xs arbitrary: st)
  case Nil
  then show ?case by simp
next
  case (Cons x xs)
  have s: "one_spinner (final (step fmt trace u x st))"
    using one_spinner_step [OF Cons.prems] .
  show ?case
  proof (cases "step fmt trace u x st")
    case (Inl thrown)
    then show ?thesis using s by simp
  next
    case (Inr st1)
    then show ?thesis using s Cons.IH [of st1] by simp
  qed
qed

subsection \<open>Runs that end without an exception\<close>

lemma print_error_returns:
  "has_message err \<or> converts err \<Longrightarrow> \<exists>st'. print_error err st = Inr st'"
  using printBuildError_returns [of err] by (auto simp: print_error_def)

lemma has_message_new_Error: "has_message (new_Error trace msg) \<or> converts (new_Error trace msg)"
  by (simp add: new_Error_def)

lemma run_callback_returns:
  "converts err \<Longrightarrow> \<exists>st'. run_callback fmt trace err st_obj st = Inr st'"
  by (simp add: run_callback_def Let_def print_error_returns has_message_new_Error)

lemma step_returns: "op_converts x \<Longrightarrow> \<exists>st'. step fmt trace u x st = Inr st'"
  by (cases x) (simp_all add: run_callback_returns)

lemma run_returns:
  "\<forall>x\<in>set xs. op_converts x \<Longrightarrow> \<exists>st'. run fmt trace u xs st = Inr st'"
proof (induction xs arbitrary: st)
  case Nil
  then show ?case by simp
next
  case (Cons x xs)
  then obtain st1 where "step fmt trace u x st = Inr st1"
    using step_returns [of x fmt trace u st] by auto
  then show ?case using Cons.IH [of st1] Cons.prems by simp
qed

section \<open>The claims\<close>

text \<open>
  C1. In watch mode a pass with an error and a warning is reported twice: the red line with
  the error and then the yellow line with the warning. The callback of one-shot mode, on the
  same result, returns after the red line.
\<close>

theorem watch_error_and_warning_both_rendered:
  "out (taroDone (\<lambda>j. j)
          \<lparr>toJson = (\<lambda>a. \<lparr>errors = [units ''e''], warnings = [units ''w'']\<rparr>),
           toString = (\<lambda>opts. [])\<rparr>
          initial)
     = [OraStopAndPersist 0 failure_line, ConsoleLog [Txt (Str (units ''e'' @ nl))],
        OraStopAndPersist 0 warning_line, ConsoleLog [Txt (Str (units ''w'' @ nl))]]
   \<and> (\<exists>st'. run_callback (\<lambda>j. j) (\<lambda>m. None) Null
               \<lparr>toJson = (\<lambda>a. \<lparr>errors = [units ''e''], warnings = [units ''w'']\<rparr>),
                toString = (\<lambda>opts. [])\<rparr>
               initial = Inr st'
          \<and> out st' = [OraStopAndPersist 0 failure_line,
                        ConsoleLog [Txt (Str (units ''e'' @ nl))], ConsoleLog []])"
proof -
  have p: "printBuildError (new_Error (\<lambda>m. None) (units ''e''))
             = Inr [ConsoleLog [Txt (Str (units ''e'' @ nl))], ConsoleLog []]"
    by (simp add: new_Error_def printBuildError_fallback units_def)
  show ?thesis using p by (simp add: concrete del: new_Error_def)
qed




text \<open>
  C3. When the formatted compile result has no errors and no warnings, the pass is a success:
  the \<^verbatim>\<open>done\<close> hook of watch mode emits exactly the green persisted line
  \<^verbatim>\<open>Compile successfully!\<close>, and the callback of one-shot mode emits that line followed by
  the engine's summary, asked for with modules, chunks, chunk modules and children switched
  off.
\<close>

theorem success_reported:
  "(errors (fmt (toJson st_obj ArgTrue)) = [] \<and> warnings (fmt (toJson st_obj ArgTrue)) = []
      \<longrightarrow> out (taroDone fmt st_obj st)
            = out st @ [OraStopAndPersist (fst (getServeSpinner st)) success_line])
   \<and> (\<not> truthy_err err \<and> errors (fmt (toJson st_obj ArgEmptyObject)) = []
        \<and> warnings (fmt (toJson st_obj ArgEmptyObject)) = []
      \<longrightarrow> (\<exists>st'. run_callback fmt trace err st_obj st = Inr st'
             \<and> out st' = out st @
                 [OraStopAndPersist (fst (getServeSpinner st)) success_line,
                  StdoutWrite (toString st_obj
                     \<lparr>colors = True, modules = False, children = False, chunks = False,
                      chunkModules = False\<rparr> @ nl)]))
   \<and> ptext success_line = Chalk Green (Str (units ''Compile successfully!'' @ nl))"
  by (simp add: taroDone_def run_callback_def Let_def summary_options_def success_line_def)

theorem success_reported_witness:
  "out (taroDone (\<lambda>j. j)
          \<lparr>toJson = (\<lambda>a. \<lparr>errors = [], warnings = []\<rparr>), toString = (\<lambda>opts. units ''1 asset'')\<rparr>
          initial)
     = [OraStopAndPersist 0 success_line]
   \<and> (\<exists>st'. run_callback (\<lambda>j. j) (\<lambda>m. None) Null
               \<lparr>toJson = (\<lambda>a. \<lparr>errors = [], warnings = []\<rparr>),
                toString = (\<lambda>opts. units ''1 asset'')\<rparr>
               initial = Inr st'
          \<and> out st' = [OraStopAndPersist 0 success_line, StdoutWrite (units ''1 asset'' @ nl)])"
  using success_reported [of "\<lambda>j. j"
      "\<lparr>toJson = (\<lambda>a. \<lparr>errors = [], warnings = []\<rparr>), toString = (\<lambda>opts. units ''1 asset'')\<rparr>"
      initial Null "\<lambda>m. None"]
  by (simp add: initial_def getServeSpinner_def)






text \<open>
  C6, as the claim states it, fails in one-shot mode. The first error carries the minifier
  marker and a bracketed location, and the stack of the \<^verbatim>\<open>Error\<close> made from it repeats
  the message: what follows the red line is the location, not the error entry.
\<close>

theorem one_shot_minifier_entry_not_printed:
  "run_callback (\<lambda>j. j) (\<lambda>m. Some (units ''Error: '' @ m @ nl @ units ''    at run'')) Null
     \<lparr>toJson = (\<lambda>a. \<lparr>errors = [units ''a.js from UglifyJs'' @ nl @ units ''x [a.js:1,0][b]''],
                       warnings = []\<rparr>),
      toString = (\<lambda>opts. [])\<rparr>
     initial
   = Inr \<lparr>isFirst = True, spinner = Some 0,
          instances = [\<lparr>spinner_text = units ''Starting development server, please wait~''\<rparr>],
          out = [OraStopAndPersist 0 failure_line,
                 ConsoleLog
                   [Txt (Str (units ''Failed to minify the code from this file: '' @ nl @ nl)),
                    Txt (Chalk Yellow (Str (tab @ units ''a.js:1''))),
                    Txt (Str nl)],
                 ConsoleLog []]\<rparr>"
proof -
  let ?e = "units ''a.js from UglifyJs'' @ nl @ units ''x [a.js:1,0][b]''"
  let ?stack = "units ''Error: '' @ ?e @ nl @ units ''    at run''"
  have m: "indexOf ?e minify_marker \<noteq> - 1"
    by (simp add: indexOf_def minify_marker_def units_def nl_def)
  have ne: "?stack \<noteq> []" by (simp add: units_def)
  have r: "regex_exec minify_pattern ?stack
             = Some [units ''x [a.js:1,0][b]'', units ''x '', units ''a.js'', units ''1'',
                     units ''0'']"
    by (simp add: minify_pattern_def is_line_terminator_def keep_def units_def nl_def)
  have p: "printBuildError (Object (Some ?e) (Some ?stack) c)
             = Inr [ConsoleLog
                      [Txt (Str (units ''Failed to minify the code from this file: '' @ nl @ nl)),
                       Txt (Chalk Yellow (Str (tab @ units ''a.js:1''))),
                       Txt (Str nl)],
                    ConsoleLog []]" for c
    unfolding printBuildError_minify [OF ne m] r by (simp add: units_def)
  have q: "printBuildError
             (new_Error (\<lambda>m. Some (units ''Error: '' @ m @ nl @ units ''    at run'')) ?e)
             = Inr [ConsoleLog
                      [Txt (Str (units ''Failed to minify the code from this file: '' @ nl @ nl)),
                       Txt (Chalk Yellow (Str (tab @ units ''a.js:1''))),
                       Txt (Str nl)],
                    ConsoleLog []]"
    by (simp only: new_Error_def p)
  show ?thesis
    by (simp add: run_callback_def print_error_def splice1_def Let_def q
          stopAndPersist_def emit_def getServeSpinner_def initial_def)
qed

text \<open>
  C6, amended. With at least one error, only the first reaches the display. In watch mode
  the red line is followed by one log line holding the first error. In one-shot mode the red
  line is followed by what \<^verbatim>\<open>printBuildError\<close> prints for an \<^verbatim>\<open>Error\<close> made from the first
  error alone: \<^verbatim>\<open>Error\<close> when that entry is empty; the entry itself when it carries no
  minifier marker or the new object has no stack; otherwise the minifier report, that is
  the location read from the stack, or the fallback line with the object when the stack does
  not match. The other errors do not reach the output.
\<close>

theorem first_error_only:
  "(errors (fmt (toJson st_obj ArgTrue)) = e # es
      \<longrightarrow> out (taroDone fmt st_obj st)
            = out st @ [OraStopAndPersist (fst (getServeSpinner st)) failure_line,
                        ConsoleLog [Txt (Str (e @ nl))]]
              @ (case warnings (fmt (toJson st_obj ArgTrue)) of
                   [] \<Rightarrow> []
                 | w # ws \<Rightarrow> [OraStopAndPersist (fst (getServeSpinner st)) warning_line,
                              ConsoleLog [Txt (Str (w @ nl))]]))
   \<and> (\<not> truthy_err err \<and> errors (fmt (toJson st_obj ArgEmptyObject)) = e # es
      \<longrightarrow> (\<exists>st'.
             run_callback fmt trace err st_obj st = Inr st'
             \<and> out st' = out st
                 @ OraStopAndPersist (fst (getServeSpinner st)) failure_line
                 # (if e = [] then [ConsoleLog [Txt (Str (units ''Error'' @ nl))], ConsoleLog []]
                    else case trace e of
                      None \<Rightarrow> [ConsoleLog [Txt (Str (e @ nl))], ConsoleLog []]
                    | Some stack \<Rightarrow>
                        if stack = [] \<or> indexOf e minify_marker = - 1
                        then [ConsoleLog [Txt (Str (e @ nl))], ConsoleLog []]
                        else case regex_exec minify_pattern stack of
                          Some matched \<Rightarrow>
                            [ConsoleLog
                               [Txt (Str (units ''Failed to minify the code from this file: ''
                                          @ nl @ nl)),
                                Txt (Chalk Yellow
                                       (Str (tab @ matched ! 2 @ units '':'' @ matched ! 3
                                             @ (if matched ! 4 = units ''0'' then []
                                                else units '':'' @ matched ! 4)))),
                                Txt (Str nl)],
                             ConsoleLog []]
                        | None \<Rightarrow>
                            [ConsoleLog
                               [Txt (Str (units ''Failed to minify the bundle.'')),
                                ErrVal (Object (Some e) (Some stack)
                                          (Converts (units ''Error: '' @ e)))],
                             ConsoleLog []])))"
proof -
  let ?entry = "[ConsoleLog [Txt (Str (e @ nl))], ConsoleLog []]"
  let ?printed =
    "if e = [] then [ConsoleLog [Txt (Str (units ''Error'' @ nl))], ConsoleLog []]
     else case trace e of
       None \<Rightarrow> ?entry
     | Some stack \<Rightarrow>
         if stack = [] \<or> indexOf e minify_marker = - 1 then ?entry
         else case regex_exec minify_pattern stack of
           Some matched \<Rightarrow>
             [ConsoleLog
                [Txt (Str (units ''Failed to minify the code from this file: '' @ nl @ nl)),
                 Txt (Chalk Yellow
                        (Str (tab @ matched ! 2 @ units '':'' @ matched ! 3
                              @ (if matched ! 4 = units ''0'' then []
                                 else units '':'' @ matched ! 4)))),
                 Txt (Str nl)],
              ConsoleLog []]
         | None \<Rightarrow>
             [ConsoleLog
                [Txt (Str (units ''Failed to minify the bundle.'')),
                 ErrVal (Object (Some e) (Some stack) (Converts (units ''Error: '' @ e)))],
              ConsoleLog []]"
  have name: "e \<noteq> [] \<Longrightarrow> error_toString (units ''Error'') e = units ''Error: '' @ e"
    by (simp add: error_toString_def units_def)
  have p: "printBuildError (new_Error trace e) = Inr ?printed"
  proof (cases "e = []")
    case True
    then show ?thesis
      by (simp add: new_Error_def printBuildError_no_message error_toString_def units_def)
  next
    case False
    show ?thesis
    proof (cases "trace e")
      case None
      then show ?thesis using False
        by (simp add: new_Error_def printBuildError_fallback)
    next
      case (Some stack)
      show ?thesis
      proof (cases "stack = [] \<or> indexOf e minify_marker = - 1")
        case True
        then have "\<not> (truthy (of_field (trace e)) \<and> indexOf e minify_marker \<noteq> - 1)"
          using Some by auto
        from printBuildError_fallback [OF False this] show ?thesis
          using False Some True by (simp add: new_Error_def)
      next
        case no: False
        then have "stack \<noteq> []" "indexOf e minify_marker \<noteq> - 1" by simp_all
        from printBuildError_minify [OF this] show ?thesis
          using False Some no by (simp add: new_Error_def name split: option.splits)
      qed
    qed
  qed
  have watch: "errors (fmt (toJson st_obj ArgTrue)) = e # es
      \<longrightarrow> out (taroDone fmt st_obj st)
            = out st @ [OraStopAndPersist (fst (getServeSpinner st)) failure_line,
                        ConsoleLog [Txt (Str (e @ nl))]]
              @ (case warnings (fmt (toJson st_obj ArgTrue)) of
                   [] \<Rightarrow> []
                 | w # ws \<Rightarrow> [OraStopAndPersist (fst (getServeSpinner st)) warning_line,
                              ConsoleLog [Txt (Str (w @ nl))]])"
    by (simp add: taroDone_def Let_def splice1_def split: list.splits)
  have once: "\<not> truthy_err err \<and> errors (fmt (toJson st_obj ArgEmptyObject)) = e # es
      \<longrightarrow> (\<exists>st'. run_callback fmt trace err st_obj st = Inr st'
             \<and> out st' = out st
                 @ OraStopAndPersist (fst (getServeSpinner st)) failure_line # ?printed)"
    using p by (simp add: run_callback_def Let_def splice1_def print_error_def)
  show ?thesis using watch once by blast
qed

theorem first_error_only_witness:
  "out (taroDone (\<lambda>j. j)
          \<lparr>toJson = (\<lambda>a. \<lparr>errors = [units ''e1'', units ''e2''], warnings = []\<rparr>),
           toString = (\<lambda>opts. [])\<rparr>
          initial)
     = [OraStopAndPersist 0 failure_line, ConsoleLog [Txt (Str (units ''e1'' @ nl))]]
   \<and> (\<exists>st'. run_callback (\<lambda>j. j) (\<lambda>m. Some (units ''Error: '' @ m @ nl @ units ''    at run'')) Null
               \<lparr>toJson = (\<lambda>a. \<lparr>errors = [units ''e1'', units ''e2''], warnings = []\<rparr>),
                toString = (\<lambda>opts. [])\<rparr>
               initial = Inr st'
          \<and> out st' = [OraStopAndPersist 0 failure_line,
                        ConsoleLog [Txt (Str (units ''e1'' @ nl))], ConsoleLog []])"
proof -
  have i: "indexOf (units ''e1'') minify_marker = - 1"
    by (simp add: indexOf_def minify_marker_def units_def)
  have n: "units ''e1'' \<noteq> []" by (simp add: units_def)
  show ?thesis
    using first_error_only [of "\<lambda>j. j"
      "\<lparr>toJson = (\<lambda>a. \<lparr>errors = [units ''e1'', units ''e2''], warnings = []\<rparr>),
        toString = (\<lambda>opts. [])\<rparr>"
      "units ''e1''" "[units ''e2'']" initial Null
      "\<lambda>m. Some (units ''Error: '' @ m @ nl @ units ''    at run'')"] i n
    by (auto simp: initial_def getServeSpinner_def)
qed

text \<open>
  C7. Whatever sequence of calls the process makes (either mode started, compile events,
  the run callback, the listen callback, direct calls of the accessor), and whether or not
  the run ends with an exception, in the state reached at most one \<^verbatim>\<open>ora\<close> instance has
  been created, every event sent to a spinner in the trace went to that first instance,
  and a further call of \<^verbatim>\<open>getServeSpinner\<close> returns it and leaves exactly one instance.
  When no run callback is handed a value whose conversion to a string throws, the run ends
  without an exception.
\<close>

theorem single_spinner:
  "length (instances (final (run fmt trace u xs initial))) \<le> 1
   \<and> (\<forall>e\<in>set (out (final (run fmt trace u xs initial))). \<forall>r. ora_ref e = Some r \<longrightarrow> r = 0)
   \<and> fst (getServeSpinner (final (run fmt trace u xs initial))) = 0
   \<and> length (instances (snd (getServeSpinner (final (run fmt trace u xs initial))))) = 1
   \<and> ((\<forall>x\<in>set xs. op_converts x) \<longrightarrow> (\<exists>st. run fmt trace u xs initial = Inr st))"
proof -
  let ?st = "final (run fmt trace u xs initial)"
  have st: "one_spinner ?st"
    using one_spinner_run [OF one_spinner_initial] .
  have "length (instances ?st) \<le> 1" using st by (auto simp: one_spinner_def)
  moreover have "\<forall>e\<in>set (out ?st). \<forall>r. ora_ref e = Some r \<longrightarrow> r = 0"
    using st by (auto simp: one_spinner_def)
  moreover have "fst (getServeSpinner ?st) = 0" using one_spinner_get [OF st] by simp
  moreover have "length (instances (snd (getServeSpinner ?st))) = 1"
    using one_spinner_get_length [OF st] .
  moreover have "(\<forall>x\<in>set xs. op_converts x) \<longrightarrow> (\<exists>st. run fmt trace u xs initial = Inr st)"
    using run_returns by blast
  ultimately show ?thesis by blast
qed

theorem single_spinner_witness:
  "\<exists>st. run (\<lambda>j. j) (\<lambda>m. None)
          \<lparr>lanUrlForTerminal = units ''http://10.0.0.2:10086'',
           localUrlForBrowser = units ''http://localhost:10086''\<rparr>
          [StartWatch,
           Compile (Done \<lparr>toJson = (\<lambda>a. \<lparr>errors = [], warnings = []\<rparr>), toString = (\<lambda>opts. [])\<rparr>),
           StartOneShot,
           RunDone Null
             \<lparr>toJson = (\<lambda>a. \<lparr>errors = [units ''e''], warnings = []\<rparr>), toString = (\<lambda>opts. [])\<rparr>,
           CallGetServeSpinner]
          initial = Inr st
      \<and> instances st = [\<lparr>spinner_text = units ''Compiling...''\<rparr>]
      \<and> map ora_ref (out st)
           = [None, Some 0, Some 0, Some 0, None, None, None, None, Some 0, Some 0, None, None]
      \<and> fst (getServeSpinner st) = 0
      \<and> length (instances (snd (getServeSpinner st))) = 1"
proof -
  let ?U = "\<lparr>lanUrlForTerminal = units ''http://10.0.0.2:10086'',
            localUrlForBrowser = units ''http://localhost:10086''\<rparr>"
  let ?ops = "[StartWatch,
           Compile (Done \<lparr>toJson = (\<lambda>a. \<lparr>errors = [], warnings = []\<rparr>), toString = (\<lambda>opts. [])\<rparr>),
           StartOneShot,
           RunDone Null
             \<lparr>toJson = (\<lambda>a. \<lparr>errors = [units ''e''], warnings = []\<rparr>), toString = (\<lambda>opts. [])\<rparr>,
           CallGetServeSpinner]"
  have p: "printBuildError (new_Error (\<lambda>m. None) (units ''e''))
             = Inr [ConsoleLog [Txt (Str (units ''e'' @ nl))], ConsoleLog []]"
    by (simp add: new_Error_def printBuildError_fallback units_def)
  have c: "\<forall>x\<in>set ?ops. op_converts x" by simp
  have r: "run (\<lambda>j. j) (\<lambda>m. None) ?U ?ops initial
      = Inr \<lparr>isFirst = False, spinner = Some 0,
             instances = [\<lparr>spinner_text = units ''Compiling...''\<rparr>],
             out = [ConsoleLog [], OraStart 0, OraStopAndPersist 0 success_line, OraClear 0,
                    ConsoleLog [], listening_line (units ''http://10.0.0.2:10086''),
                    listening_line (units ''http://localhost:10086''), watching_line,
                    OraStart 0, OraStopAndPersist 0 failure_line,
                    ConsoleLog [Txt (Str (units ''e'' @ nl))], ConsoleLog []]\<rparr>"
    using p
    by (simp add: initial_def getServeSpinner_def emit_def console_log_def spinner_set_text_def
          spinner_render_def spinner_start_def spinner_clear_def stopAndPersist_def
          buildProd_start_def buildDev_start_def taroInvalid_def taroDone_def taroDoneFirst_def
          run_callback_def print_error_def listen_callback_def splice1_def Let_def)
  from single_spinner [of "\<lambda>j. j" "\<lambda>m. None" ?U ?ops] c r
  show ?thesis by (auto simp: listening_line_def watching_line_def)
qed

text \<open>
  C8. In one-shot mode, when the run callback receives an engine error, the callback prints
  through \<^verbatim>\<open>printBuildError\<close> and returns: the state is untouched but for what was
  printed (the spinner is not stopped), and no persisted status line is among the output.
  This holds for every truthy value that has a message or converts to a string, as every
  \<^verbatim>\<open>Error\<close> instance does. For the other truthy values the exception of the conversion
  leaves the callback with the state untouched, so again without a status line.
\<close>

theorem engine_error_no_status_line:
  "truthy_err err \<Longrightarrow>
     (has_message err \<or> converts err
        \<longrightarrow> (\<exists>printed. printBuildError err = Inr printed
               \<and> run_callback fmt trace err st_obj st = Inr (st\<lparr>out := out st @ printed\<rparr>)
               \<and> (\<forall>e\<in>set printed. \<not> is_persist e)))
     \<and> (\<forall>e. printBuildError err = Inl e
            \<longrightarrow> run_callback fmt trace err st_obj st = Inl (e, st))
     \<and> (has_message err \<or> converts err \<or> (\<exists>e. printBuildError err = Inl e))"
proof -
  assume t: "truthy_err err"
  have a: "has_message err \<or> converts err
        \<longrightarrow> (\<exists>printed. printBuildError err = Inr printed
               \<and> run_callback fmt trace err st_obj st = Inr (st\<lparr>out := out st @ printed\<rparr>)
               \<and> (\<forall>e\<in>set printed. \<not> is_persist e))"
  proof
    assume "has_message err \<or> converts err"
    then obtain printed where p: "printBuildError err = Inr printed"
      using printBuildError_returns by blast
    have "run_callback fmt trace err st_obj st = Inr (st\<lparr>out := out st @ printed\<rparr>)"
      using t p by (simp add: run_callback_def print_error_def)
    moreover have "\<forall>e\<in>set printed. \<not> is_persist e"
      using printBuildError_logs_only [OF p] by blast
    ultimately show "\<exists>printed. printBuildError err = Inr printed
               \<and> run_callback fmt trace err st_obj st = Inr (st\<lparr>out := out st @ printed\<rparr>)
               \<and> (\<forall>e\<in>set printed. \<not> is_persist e)"
      using p by blast
  qed
  have b: "\<forall>e. printBuildError err = Inl e
            \<longrightarrow> run_callback fmt trace err st_obj st = Inl (e, st)"
    using t by (simp add: run_callback_def print_error_def)
  have c: "has_message err \<or> converts err \<or> (\<exists>e. printBuildError err = Inl e)"
  proof (cases "err_to_string err")
    case (Inl e)
    then show ?thesis using printBuildError_throws_iff [of err e] by blast
  next
    case (Inr x)
    then show ?thesis by (simp add: converts_iff)
  qed
  show ?thesis using a b c by blast
qed

theorem engine_error_no_status_line_witness:
  "truthy_err (Object (Some (units ''disk full'')) None (Converts (units ''Error: disk full'')))
   \<and> run_callback (\<lambda>j. j) (\<lambda>m. None)
        (Object (Some (units ''disk full'')) None (Converts (units ''Error: disk full'')))
        \<lparr>toJson = (\<lambda>a. \<lparr>errors = [], warnings = []\<rparr>), toString = (\<lambda>opts. [])\<rparr>
        (buildProd_start initial)
      = Inr ((buildProd_start initial)
               \<lparr>out := [OraStart 0, ConsoleLog [Txt (Str (units ''disk full'' @ nl))],
                        ConsoleLog []]\<rparr>)
   \<and> run_callback (\<lambda>j. j) (\<lambda>m. None)
        (Object None None (Throws (TypeError (units ''Cannot convert object to primitive value''))))
        \<lparr>toJson = (\<lambda>a. \<lparr>errors = [], warnings = []\<rparr>), toString = (\<lambda>opts. [])\<rparr>
        (buildProd_start initial)
      = Inl (TypeError (units ''Cannot convert object to primitive value''),
             buildProd_start initial)"
proof -
  let ?err = "Object (Some (units ''disk full'')) None (Converts (units ''Error: disk full''))"
  let ?bad = "Object None None (Throws (TypeError (units ''Cannot convert object to primitive value'')))"
  let ?S = "\<lparr>toJson = (\<lambda>a::json_arg. \<lparr>errors = [], warnings = []\<rparr>),
            toString = (\<lambda>opts::to_string_options. [])\<rparr>"
  have t: "truthy_err ?err" and t': "truthy_err ?bad" by simp_all
  have h: "has_message ?err \<or> converts ?err" by simp
  have p: "printBuildError ?err
             = Inr [ConsoleLog [Txt (Str (units ''disk full'' @ nl))], ConsoleLog []]"
    by (simp add: printBuildError_fallback units_def)
  have p': "printBuildError ?bad
             = Inl (TypeError (units ''Cannot convert object to primitive value''))"
    by (simp add: printBuildError_no_message)
  have o: "out (buildProd_start initial) = [OraStart 0]"
    by (simp add: concrete)
  from engine_error_no_status_line [OF t, of "\<lambda>j. j" "\<lambda>m. None" ?S "buildProd_start initial"]
    engine_error_no_status_line [OF t', of "\<lambda>j. j" "\<lambda>m. None" ?S "buildProd_start initial"]
    h p p' o t
  show ?thesis by auto
qed

text \<open>
  C9. When the stack matches and the column captured is the string \<^verbatim>\<open>0\<close>, the location
  printed is \<^verbatim>\<open>path:line\<close>; for every other column it is \<^verbatim>\<open>path:line:column\<close>.
\<close>

theorem column_zero_suffix:
  "stack \<noteq> [] \<Longrightarrow> indexOf m minify_marker \<noteq> - 1 \<Longrightarrow>
   regex_exec minify_pattern stack = Some matched \<Longrightarrow>
     (matched ! 4 = units ''0'' \<longrightarrow>
        printBuildError (Object (Some m) (Some stack) c)
          = Inr [ConsoleLog
                   [Txt (Str (units ''Failed to minify the code from this file: '' @ nl @ nl)),
                    Txt (Chalk Yellow (Str (tab @ matched ! 2 @ units '':'' @ matched ! 3))),
                    Txt (Str nl)],
                 ConsoleLog []])
   \<and> (matched ! 4 \<noteq> units ''0'' \<longrightarrow>
        printBuildError (Object (Some m) (Some stack) c)
          = Inr [ConsoleLog
                   [Txt (Str (units ''Failed to minify the code from this file: '' @ nl @ nl)),
                    Txt (Chalk Yellow
                           (Str (tab @ matched ! 2 @ units '':'' @ matched ! 3
                                 @ units '':'' @ matched ! 4))),
                    Txt (Str nl)],
                 ConsoleLog []])"
  by (simp add: printBuildError_minify)

theorem column_zero_suffix_witness:
  "printBuildError
     (Object (Some (units ''a.js from UglifyJs'')) (Some (units ''x [a.js:1,0][b]''))
        (Converts (units ''Error: a.js from UglifyJs'')))
     = Inr [ConsoleLog
              [Txt (Str (units ''Failed to minify the code from this file: '' @ nl @ nl)),
               Txt (Chalk Yellow (Str (tab @ units ''a.js:1''))),
               Txt (Str nl)],
            ConsoleLog []]
   \<and> printBuildError
       (Object (Some (units ''a.js from UglifyJs'')) (Some (units ''x [a.js:1,7][b]''))
          (Converts (units ''Error: a.js from UglifyJs'')))
     = Inr [ConsoleLog
              [Txt (Str (units ''Failed to minify the code from this file: '' @ nl @ nl)),
               Txt (Chalk Yellow (Str (tab @ units ''a.js:1:7''))),
               Txt (Str nl)],
            ConsoleLog []]"
proof -
  have m: "indexOf (units ''a.js from UglifyJs'') minify_marker \<noteq> - 1"
    by (simp add: indexOf_def minify_marker_def units_def)
  have r0: "regex_exec minify_pattern (units ''x [a.js:1,0][b]'')
              = Some [units ''x [a.js:1,0][b]'', units ''x '', units ''a.js'', units ''1'',
                      units ''0'']"
    by (simp add: minify_pattern_def is_line_terminator_def keep_def units_def)
  have r7: "regex_exec minify_pattern (units ''x [a.js:1,7][b]'')
              = Some [units ''x [a.js:1,7][b]'', units ''x '', units ''a.js'', units ''1'',
                      units ''7'']"
    by (simp add: minify_pattern_def is_line_terminator_def keep_def units_def)
  have s0: "units ''x [a.js:1,0][b]'' \<noteq> []" and s7: "units ''x [a.js:1,7][b]'' \<noteq> []"
    by (simp_all add: units_def)
  show ?thesis
    using column_zero_suffix [OF s0 m r0, of "Converts (units ''Error: a.js from UglifyJs'')"]
      column_zero_suffix [OF s7 m r7, of "Converts (units ''Error: a.js from UglifyJs'')"]
    by (simp add: units_def)
qed




end
